theory Spec2Isabelle
  imports Complex_Main "HOL-Library.Sublist"
begin

section \<open>Python strings\<close>

text \<open>
  A Python \<open>str\<close> is a sequence of code points. A \<open>char\<close> of this theory stands for
  the code point with the same number, so a \<open>string\<close> is a Python string whose code
  points are all below 256 (ASCII and the Latin-1 supplement). The character classes
  below are the ones Python 3 uses for \<open>str\<close> patterns, which are Unicode-aware:
  \<open>\w\<close> is \<open>str.isalnum\<close> or the underscore, \<open>\s\<close> is \<open>str.isspace\<close>, \<open>\d\<close> is the
  decimal digits, each restricted here to the code points below 256.
\<close>

definition cp :: "char \<Rightarrow> nat" where
  "cp c = of_char c"


definition isdecimal :: "char \<Rightarrow> bool" where
  "isdecimal c = (48 \<le> cp c \<and> cp c \<le> 57)"

definition isalnum :: "char \<Rightarrow> bool" where
  "isalnum c =
     (let n = cp c in
        (48 \<le> n \<and> n \<le> 57) \<or> (65 \<le> n \<and> n \<le> 90) \<or> (97 \<le> n \<and> n \<le> 122)
        \<or> n = 170 \<or> n = 178 \<or> n = 179 \<or> n = 181 \<or> n = 185 \<or> n = 186
        \<or> (188 \<le> n \<and> n \<le> 190)
        \<or> (192 \<le> n \<and> n \<le> 214) \<or> (216 \<le> n \<and> n \<le> 246) \<or> 248 \<le> n)"

definition is_word :: "char \<Rightarrow> bool" where
  "is_word c = (isalnum c \<or> c = CHR ''_'')"

definition isspace :: "char \<Rightarrow> bool" where
  "isspace c =
     (let n = cp c in
        (9 \<le> n \<and> n \<le> 13) \<or> (28 \<le> n \<and> n \<le> 32) \<or> n = 133 \<or> n = 160)"

definition lower_char :: "char \<Rightarrow> char" where
  "lower_char c =
     (let n = cp c in
        if (65 \<le> n \<and> n \<le> 90) \<or> (192 \<le> n \<and> n \<le> 214) \<or> (216 \<le> n \<and> n \<le> 222)
        then char_of (n + 32) else c)"

definition lower :: "string \<Rightarrow> string" where
  "lower s = map lower_char s"

text \<open>\<open>s.strip(chars)\<close> and \<open>s.strip()\<close>: drop the characters of a class at both ends.\<close>

definition strip_where :: "(char \<Rightarrow> bool) \<Rightarrow> string \<Rightarrow> string" where
  "strip_where p s = rev (dropWhile p (rev (dropWhile p s)))"

definition strip :: "string \<Rightarrow> string" where
  "strip s = strip_where isspace s"

definition startswith :: "string \<Rightarrow> string \<Rightarrow> bool" where
  "startswith s p = prefix p s"

section \<open>Slugs: \<open>ModelRecord.slugify_name\<close>\<close>

text \<open>\<open>re.sub(r'[^\w\s-]', '', s)\<close>: delete every character outside the class.\<close>

definition slug_keep :: "char \<Rightarrow> bool" where
  "slug_keep c = (is_word c \<or> isspace c \<or> c = CHR ''-'')"

definition remove_special :: "string \<Rightarrow> string" where
  "remove_special s = filter slug_keep s"

text \<open>\<open>re.sub(r'[-\s]+', '_', s)\<close>: each maximal run of hyphens and whitespace becomes
  one underscore.\<close>

definition is_sep :: "char \<Rightarrow> bool" where
  "is_sep c = (c = CHR ''-'' \<or> isspace c)"

function collapse_seps :: "string \<Rightarrow> string" where
  "collapse_seps [] = []"
| "collapse_seps (c # cs) =
     (if is_sep c then CHR ''_'' # collapse_seps (dropWhile is_sep cs)
      else c # collapse_seps cs)"
  by pat_completeness auto
termination
  by (relation "measure length") (auto simp: length_dropWhile_le less_Suc_eq_le)

definition slugify_name :: "string \<Rightarrow> string" where
  "slugify_name name =
     (let slug = remove_special (lower name);
          slug = collapse_seps slug;
          slug = strip_where (\<lambda>c. c = CHR ''_'') slug
      in slug)"


section \<open>Regular-expression searches\<close>

text \<open>
  The patterns of the source are concatenations of literals, the alternation
  \<open>(ima|mai|dev)\<close> and \<open>\d+\<close>. A pattern is modelled by its matcher at the start of a
  string, which returns the captured group; \<open>re.search\<close> tries every start position
  from the left. The three alternatives differ in their first three characters, so
  the first alternative that matches is the only one, and \<open>\d+\<close> followed by a
  non-digit literal can only match the whole run of digits.
\<close>

definition division_names :: "string list" where
  "division_names = [''ima'', ''mai'', ''dev'']"

definition match_lit :: "string \<Rightarrow> string \<Rightarrow> string option" where
  "match_lit l s = (if prefix l s then Some (drop (length l) s) else None)"

fun match_alt :: "string list \<Rightarrow> string \<Rightarrow> (string \<times> string) option" where
  "match_alt [] s = None"
| "match_alt (a # as) s =
     (if prefix a s then Some (a, drop (length a) s) else match_alt as s)"

fun re_search :: "(string \<Rightarrow> 'a option) \<Rightarrow> string \<Rightarrow> 'a option" where
  "re_search m [] = m []"
| "re_search m (c # cs) =
     (case m (c # cs) of Some g \<Rightarrow> Some g | None \<Rightarrow> re_search m cs)"

text \<open>\<open>r'/models/(ima|mai|dev)/'\<close>, group 1.\<close>

definition pat_models_division :: "string \<Rightarrow> string option" where
  "pat_models_division s =
     (case match_lit ''/models/'' s of None \<Rightarrow> None
      | Some r \<Rightarrow>
         (case match_alt division_names r of None \<Rightarrow> None
          | Some (d, r') \<Rightarrow>
             (case match_lit ''/'' r' of None \<Rightarrow> None | Some _ \<Rightarrow> Some d)))"

text \<open>\<open>r'/(ima|mai|dev)-\d+'\<close>, group 1.\<close>

definition pat_division_id :: "string \<Rightarrow> string option" where
  "pat_division_id s =
     (case match_lit ''/'' s of None \<Rightarrow> None
      | Some r \<Rightarrow>
         (case match_alt division_names r of None \<Rightarrow> None
          | Some (d, r') \<Rightarrow>
             (case match_lit ''-'' r' of None \<Rightarrow> None
              | Some r'' \<Rightarrow> if takeWhile isdecimal r'' = [] then None else Some d)))"

text \<open>\<open>r'/(ima|mai|dev)/'\<close>, group 1.\<close>

definition pat_division_dir :: "string \<Rightarrow> string option" where
  "pat_division_dir s =
     (case match_lit ''/'' s of None \<Rightarrow> None
      | Some r \<Rightarrow>
         (case match_alt division_names r of None \<Rightarrow> None
          | Some (d, r') \<Rightarrow>
             (case match_lit ''/'' r' of None \<Rightarrow> None | Some _ \<Rightarrow> Some d)))"

text \<open>\<open>r'/(ima|mai|dev)-(\d+)-'\<close>, group 2.\<close>

definition pat_model_id :: "string \<Rightarrow> string option" where
  "pat_model_id s =
     (case match_lit ''/'' s of None \<Rightarrow> None
      | Some r \<Rightarrow>
         (case match_alt division_names r of None \<Rightarrow> None
          | Some (d, r') \<Rightarrow>
             (case match_lit ''-'' r' of None \<Rightarrow> None
              | Some r'' \<Rightarrow>
                 (let ds = takeWhile isdecimal r'' in
                    if ds = [] then None
                    else (case match_lit ''-'' (dropWhile isdecimal r'') of
                            None \<Rightarrow> None | Some _ \<Rightarrow> Some ds)))))"

section \<open>Division of a profile URL: \<open>_extract_division_from_url\<close>\<close>

definition division_patterns :: "(string \<Rightarrow> string option) list" where
  "division_patterns = [pat_models_division, pat_division_id, pat_division_dir]"

text \<open>The loop over the patterns: the first pattern that matches anywhere decides.\<close>

fun first_match :: "(string \<Rightarrow> string option) list \<Rightarrow> string \<Rightarrow> string option" where
  "first_match [] url = None"
| "first_match (p # ps) url =
     (case re_search p url of Some d \<Rightarrow> Some d | None \<Rightarrow> first_match ps url)"

definition extract_division_from_url :: "string \<Rightarrow> string" where
  "extract_division_from_url url =
     (case first_match division_patterns url of Some division \<Rightarrow> division
      | None \<Rightarrow> ''unknown'')"

section \<open>Library functions and the outside world\<close>

text \<open>
  \<open>urllib.parse.urljoin\<close> and \<open>urllib.parse.urlparse\<close> are not part of the program; the
  model takes them as parameters. Both raise \<open>ValueError\<close> on some inputs, which is the
  value \<open>Inl ValueError\<close>.
\<close>

datatype error = ValueError | WebDriverException | OSError

record pylib =
  urljoin :: "string \<Rightarrow> string \<Rightarrow> error + string"
  urlparse_path :: "string \<Rightarrow> error + string"

text \<open>
  A stand-in for the two library functions on plain URLs of the shape
  \<open>scheme://host/path?query#fragment\<close> and on absolute paths, used to evaluate the
  model on concrete inputs: the path runs from the first \<open>/\<close> after the host to the
  first \<open>?\<close> or \<open>#\<close>, and a reference starting with \<open>/\<close> is joined to a base without
  a path by concatenation.
\<close>

definition plain_path :: "string \<Rightarrow> string" where
  "plain_path url =
     (let rest = (case re_search (match_lit ''://'') url of
                    Some r \<Rightarrow> dropWhile (\<lambda>c. c \<noteq> CHR ''/'' \<and> c \<noteq> CHR ''?'' \<and> c \<noteq> CHR ''#'') r
                  | None \<Rightarrow> url)
      in takeWhile (\<lambda>c. c \<noteq> CHR ''?'' \<and> c \<noteq> CHR ''#'') rest)"

definition plain_lib :: pylib where
  "plain_lib = \<lparr> urljoin = (\<lambda>base url. Inr (base @ url)),
                 urlparse_path = (\<lambda>url. Inr (plain_path url)) \<rparr>"

section \<open>Image extensions: \<open>_get_image_extension\<close>\<close>

definition image_exts :: "string list" where
  "image_exts = [''.jpg'', ''.jpeg'', ''.png'', ''.gif'', ''.webp'']"

text \<open>\<open>ext in path\<close> is the substring test, \<open>sublist\<close>; the loop returns the first
  extension of the list that occurs anywhere in the lower-cased path.\<close>

definition get_image_extension :: "pylib \<Rightarrow> string \<Rightarrow> error + string" where
  "get_image_extension L url =
     (case urlparse_path L url of
        Inl e \<Rightarrow> Inl e
      | Inr p \<Rightarrow>
         (let path = lower p in
            Inr (case find (\<lambda>ext. sublist ext path) image_exts of
                   Some ext \<Rightarrow> ext
                 | None \<Rightarrow> ''.jpg'')))"

section \<open>Index entries\<close>

text \<open>
  What the extractors read of a parsed element: the text nodes below a link in document
  order, attribute values (\<open>None\<close> when the attribute is absent) and the first image
  below the element (\<open>find('img')\<close>).
\<close>

record img_tag =
  img_src :: "string option"
  img_alt :: "string option"

record link_tag =
  link_strings :: "string list"
  link_href :: "string option"
  link_img :: "img_tag option"

record entry_tag =
  entry_link :: "link_tag option"
  entry_data_id :: "string option"
  entry_data_divisions :: "string option"
  entry_img :: "img_tag option"

text \<open>\<open>tag.get_text(strip=True)\<close>: every text node stripped, the empty ones dropped,
  the rest concatenated.\<close>

definition get_text_strip :: "string list \<Rightarrow> string" where
  "get_text_strip nodes = concat (filter (\<lambda>s. s \<noteq> []) (map strip nodes))"

text \<open>\<open>tag.get(attr, '')\<close>.\<close>

definition get_attr :: "string option \<Rightarrow> string" where
  "get_attr a = (case a of None \<Rightarrow> [] | Some v \<Rightarrow> v)"

text \<open>
  The dictionary built for a model. Stage 1 sets the first nine keys; \<open>attributes\<close>,
  \<open>gallery_images\<close> and \<open>images\<close> are added by the later stages and are read with
  \<open>.get(key, default)\<close>, so an absent key and an empty value are the same here.
\<close>

record model_data =
  model_id :: string
  name :: string
  division :: string
  profile_url :: string
  thumbnail :: string
  thumbnail_alt :: string
  divisions_meta :: string
  letter_group :: "string option"
  slug :: string
  attributes :: "(string \<times> string) list"
  gallery_images :: "string list"
  images :: "string list"

text \<open>\<open>url if url.startswith('http') else urljoin(base_url, url)\<close>.\<close>

definition absolutize :: "pylib \<Rightarrow> string \<Rightarrow> string \<Rightarrow> error + string" where
  "absolutize L base url = (if startswith url ''http'' then Inr url else urljoin L base url)"

text \<open>The thumbnail of the first image, made absolute when it is not empty.\<close>

definition thumbnail_of :: "pylib \<Rightarrow> string \<Rightarrow> img_tag option \<Rightarrow> error + string" where
  "thumbnail_of L base img =
     (case img of
        None \<Rightarrow> Inr []
      | Some t \<Rightarrow>
         (let thumbnail_url = get_attr (img_src t) in
            if thumbnail_url \<noteq> [] \<and> \<not> startswith thumbnail_url ''http''
            then urljoin L base thumbnail_url else Inr thumbnail_url))"

text \<open>\<open>_extract_model_from_entry\<close>; every exception inside is caught and gives \<open>None\<close>.\<close>

definition extract_model_from_entry ::
  "pylib \<Rightarrow> string \<Rightarrow> entry_tag \<Rightarrow> string option \<Rightarrow> model_data option" where
  "extract_model_from_entry L base entry letter =
     (case entry_link entry of
        None \<Rightarrow> None
      | Some link \<Rightarrow>
         (let model_name = get_text_strip (link_strings link) in
          if model_name = [] then None
          else
           (let href = strip (get_attr (link_href link)) in
            if href = [] then None
            else
             (case absolutize L base href of
                Inl _ \<Rightarrow> None
              | Inr url \<Rightarrow>
                 (let data_id = get_attr (entry_data_id entry);
                      ident = (if data_id = []
                               then (case re_search pat_model_id url of
                                       Some i \<Rightarrow> i | None \<Rightarrow> [])
                               else data_id)
                  in case thumbnail_of L base (entry_img entry) of
                       Inl _ \<Rightarrow> None
                     | Inr thumb \<Rightarrow>
                        Some \<lparr> model_id = ident, name = model_name,
                               division = extract_division_from_url url,
                               profile_url = url, thumbnail = thumb,
                               thumbnail_alt =
                                 (case entry_img entry of None \<Rightarrow> []
                                  | Some t \<Rightarrow> get_attr (img_alt t)),
                               divisions_meta = get_attr (entry_data_divisions entry),
                               letter_group = letter,
                               slug = slugify_name model_name,
                               attributes = [], gallery_images = [], images = [] \<rparr>)))))"

text \<open>\<open>_extract_model_from_link\<close>: the image's alt text comes first, the link text is
  used only when there is no image or its alt is missing or empty.\<close>

definition link_model_name :: "link_tag \<Rightarrow> string" where
  "link_model_name link_elem =
     (case link_img link_elem of
        Some t \<Rightarrow>
          if get_attr (img_alt t) \<noteq> [] then strip (get_attr (img_alt t))
          else get_text_strip (link_strings link_elem)
      | None \<Rightarrow> get_text_strip (link_strings link_elem))"

definition extract_model_from_link :: "pylib \<Rightarrow> string \<Rightarrow> link_tag \<Rightarrow> model_data option" where
  "extract_model_from_link L base link_elem =
     (let model_name = link_model_name link_elem in
      if model_name = [] then None
      else
       (let href = strip (get_attr (link_href link_elem)) in
        if href = [] then None
        else
         (case absolutize L base href of
            Inl _ \<Rightarrow> None
          | Inr url \<Rightarrow>
             if \<not> (\<exists>d\<in>set division_names. sublist d url) then None
             else
              (case thumbnail_of L base (link_img link_elem) of
                 Inl _ \<Rightarrow> None
               | Inr thumb \<Rightarrow>
                  Some \<lparr> model_id = (case re_search pat_model_id url of
                                       Some i \<Rightarrow> i | None \<Rightarrow> []),
                         name = model_name,
                         division = extract_division_from_url url,
                         profile_url = url, thumbnail = thumb,
                         thumbnail_alt = [], divisions_meta = [],
                         letter_group = Some [],
                         slug = slugify_name model_name,
                         attributes = [], gallery_images = [], images = [] \<rparr>))))"

section \<open>Example elements\<close>

definition example_base :: string where
  "example_base = ''https://apmmodels.com''"

definition example_img :: img_tag where
  "example_img = \<lparr> img_src = Some ''/img/jane.jpg'', img_alt = Some ''portrait'' \<rparr>"

definition example_link :: link_tag where
  "example_link =
     \<lparr> link_strings = ['' Jane Doe ''],
       link_href = Some ''https://apmmodels.com/w/models/dev/dev-101-jane-doe'',
       link_img = Some example_img \<rparr>"

definition example_entry :: entry_tag where
  "example_entry =
     \<lparr> entry_link = Some example_link, entry_data_id = None,
       entry_data_divisions = None, entry_img = Some example_img \<rparr>"

text \<open>An entry whose link text is made of punctuation only.\<close>

definition punct_entry :: entry_tag where
  "punct_entry =
     \<lparr> entry_link = Some (example_link \<lparr> link_strings := [''???''] \<rparr>),
       entry_data_id = Some ''102'', entry_data_divisions = None, entry_img = None \<rparr>"

section \<open>Removing duplicates in \<open>scrape_alphabet_index\<close>\<close>

text \<open>The loop over \<open>models\<close> with its two variables \<open>unique_models\<close> and \<open>seen_urls\<close>.\<close>

fun unique_loop :: "model_data list \<Rightarrow> model_data list \<Rightarrow> string set \<Rightarrow> model_data list" where
  "unique_loop [] unique_models seen_urls = unique_models"
| "unique_loop (model # models) unique_models seen_urls =
     (if profile_url model \<notin> seen_urls
      then unique_loop models (unique_models @ [model]) (insert (profile_url model) seen_urls)
      else unique_loop models unique_models seen_urls)"

definition remove_duplicates :: "model_data list \<Rightarrow> model_data list" where
  "remove_duplicates models = unique_loop models [] {}"

section \<open>Configuration and validation\<close>

text \<open>The configuration entries the modelled functions read, with their default values.\<close>

record config =
  base_url :: string
  request_delay :: real
  max_images_per_model :: int
  min_images_per_model :: int
  required_divisions :: "string list"
  expected_attributes :: "string list"

definition default_config :: config where
  "default_config =
     \<lparr> base_url = ''https://apmmodels.com'',
       request_delay = 1.5,
       max_images_per_model = 15,
       min_images_per_model = 1,
       required_divisions = [''ima'', ''mai'', ''dev''],
       expected_attributes =
         [''height'', ''bust'', ''waist'', ''hips'', ''shoes'', ''hair'', ''eyes''] \<rparr>"

definition required_fields :: "(model_data \<Rightarrow> string) list" where
  "required_fields = [model_id, name, division, profile_url]"

definition missing_attrs :: "config \<Rightarrow> model_data \<Rightarrow> string list" where
  "missing_attrs cfg m =
     filter (\<lambda>attr. attr \<notin> fst ` set (attributes m)) (expected_attributes cfg)"

text \<open>\<open>validate_model_data\<close>; the missing expected attributes are only logged.\<close>

definition validate_model_data :: "config \<Rightarrow> model_data \<Rightarrow> bool" where
  "validate_model_data cfg m =
     (if list_ex (\<lambda>field. field m = []) required_fields then False
      else if division m \<notin> set (required_divisions cfg) then False
      else if int (length (images m)) < min_images_per_model cfg then False
      else (let logged = missing_attrs cfg m in True))"

section \<open>The scraper's state and the outcome of its effects\<close>

text \<open>The record appended to \<open>models.jsonl\<close> by \<open>save_model_metadata\<close>.\<close>

record saved_record =
  rec_model_id :: string
  rec_name :: string
  rec_division :: string
  rec_profile_url :: string
  rec_thumbnail :: string
  rec_attributes :: "(string \<times> string) list"
  rec_images :: "string list"

text \<open>
  The mutable state: the five counters of \<open>self.stats\<close>, the lines of the output file,
  and a trace of the calls of \<open>_download_image\<close> (URL, directory slug, file name).
\<close>

record scraper =
  models_found :: int
  models_processed :: int
  models_failed :: int
  images_downloaded :: int
  images_failed :: int
  models_file :: "saved_record list"
  downloads :: "(string \<times> string \<times> string) list"

definition init_scraper :: scraper where
  "init_scraper =
     \<lparr> models_found = 0, models_processed = 0, models_failed = 0,
       images_downloaded = 0, images_failed = 0, models_file = [], downloads = [] \<rparr>"

text \<open>
  What the world does while one model is processed. In \<open>scrape_model_profile\<close> the call
  \<open>self.setup_driver()\<close> stands before the \<open>try\<close> (\<open>Setup_Raises\<close>: the exception leaves
  the function); everything from \<open>driver.get\<close> on is inside it (\<open>Load_Raises\<close>: the
  exception is caught there); \<open>Loaded\<close> carries the extracted attributes and gallery
  URLs. \<open>mkdir_ok\<close> tells whether the image directory can be created, \<open>download_ok\<close>
  what \<open>_download_image\<close> returns for a URL and file name, \<open>append_ok\<close> whether the
  write to the output file succeeds.
\<close>

datatype profile_page =
  Setup_Raises | Load_Raises | Loaded "(string \<times> string) list" "string list"

record item_env =
  page :: profile_page
  mkdir_ok :: bool
  download_ok :: "string \<Rightarrow> string \<Rightarrow> bool"
  append_ok :: bool

definition scrape_model_profile :: "item_env \<Rightarrow> model_data \<Rightarrow> error + model_data" where
  "scrape_model_profile env m =
     (case page env of
        Setup_Raises \<Rightarrow> Inl WebDriverException
      | Load_Raises \<Rightarrow> Inr (m \<lparr> attributes := [], gallery_images := [] \<rparr>)
      | Loaded attrs gallery \<Rightarrow> Inr (m \<lparr> attributes := attrs, gallery_images := gallery \<rparr>))"

section \<open>Example models\<close>

definition example_model :: model_data where
  "example_model =
     \<lparr> model_id = ''101'', name = ''Jane Doe'', division = ''dev'',
       profile_url = ''https://apmmodels.com/w/models/dev/dev-101-jane-doe'',
       thumbnail = ''https://apmmodels.com/img/jane.jpg'',
       thumbnail_alt = [], divisions_meta = [], letter_group = None,
       slug = ''jane_doe'', attributes = [], gallery_images = [], images = [] \<rparr>"

definition example_model2 :: model_data where
  "example_model2 =
     example_model \<lparr> model_id := ''102'', name := ''Ann Lee'',
       profile_url := ''https://apmmodels.com/w/models/dev/dev-102-ann-lee'',
       thumbnail := ''https://apmmodels.com/img/ann.png'', slug := ''ann_lee'' \<rparr>"


section \<open>Downloading images: \<open>download_model_images\<close>\<close>

text \<open>The decimal numeral of \<open>f"{i}"\<close>.\<close>

fun str_of_nat :: "nat \<Rightarrow> string" where
  "str_of_nat n =
     (if n < 10 then [char_of (48 + n)]
      else str_of_nat (n div 10) @ [char_of (48 + n mod 10)])"

text \<open>The slice \<open>xs[:k]\<close>; a negative \<open>k\<close> counts from the end of the list.\<close>

definition slice_to :: "int \<Rightarrow> 'a list \<Rightarrow> 'a list" where
  "slice_to k xs =
     (if 0 \<le> k then take (nat k) xs else take (nat (int (length xs) + k)) xs)"

text \<open>\<open>_download_image\<close> catches every exception and returns a truth value; the call is
  recorded in the trace.\<close>

definition download_image ::
  "item_env \<Rightarrow> string \<Rightarrow> string \<Rightarrow> string \<Rightarrow> scraper \<Rightarrow> bool \<times> scraper" where
  "download_image env url dir fname st =
     (download_ok env url fname, st \<lparr> downloads := downloads st @ [(url, dir, fname)] \<rparr>)"

text \<open>
  The body of the two \<open>try\<close> blocks, for the thumbnail and for one gallery image: the
  extension, the download under the name \<open>stem\<close> plus extension, and the counters. An
  exception (from \<open>_get_image_extension\<close>) counts as a failed image.
\<close>

definition fetch_one ::
  "pylib \<Rightarrow> item_env \<Rightarrow> string \<Rightarrow> string \<Rightarrow> string \<Rightarrow> string list \<times> scraper
     \<Rightarrow> string list \<times> scraper" where
  "fetch_one L env dir stem url acc =
     (case acc of (downloaded_files, st) \<Rightarrow>
        (case get_image_extension L url of
           Inl _ \<Rightarrow> (downloaded_files, st \<lparr> images_failed := images_failed st + 1 \<rparr>)
         | Inr ext \<Rightarrow>
            (case download_image env url dir (stem @ ext) st of (ok, st1) \<Rightarrow>
               if ok
               then (downloaded_files @ [stem @ ext],
                     st1 \<lparr> images_downloaded := images_downloaded st1 + 1 \<rparr>)
               else (downloaded_files, st1 \<lparr> images_failed := images_failed st1 + 1 \<rparr>))))"

text \<open>\<open>for i, img_url in enumerate(limited_gallery_images, 1)\<close>.\<close>

primrec download_gallery ::
  "pylib \<Rightarrow> item_env \<Rightarrow> string \<Rightarrow> nat \<Rightarrow> string list \<Rightarrow> string list \<times> scraper
     \<Rightarrow> string list \<times> scraper" where
  "download_gallery L env dir i [] acc = acc"
| "download_gallery L env dir i (img_url # rest) acc =
     download_gallery L env dir (Suc i) rest
       (fetch_one L env dir (''portfolio'' @ str_of_nat i) img_url acc)"

text \<open>Creating the image directory stands before the \<open>try\<close> blocks: its failure leaves
  the function as an exception.\<close>

definition download_model_images ::
  "pylib \<Rightarrow> config \<Rightarrow> item_env \<Rightarrow> model_data \<Rightarrow> scraper \<Rightarrow> error + model_data \<times> scraper" where
  "download_model_images L cfg env m st =
     (if \<not> mkdir_ok env then Inl OSError
      else
       (let acc0 = (if thumbnail m \<noteq> []
                    then fetch_one L env (slug m) ''thumbnail'' (thumbnail m) ([], st)
                    else ([], st));
            max_portfolio_images = max_images_per_model cfg - 1;
            limited_gallery_images = slice_to max_portfolio_images (gallery_images m)
        in case download_gallery L env (slug m) 1 limited_gallery_images acc0 of
             (downloaded_files, st') \<Rightarrow>
               Inr (m \<lparr> images := map (\<lambda>filename. ''images/'' @ slug m @ ''/'' @ filename)
                                      downloaded_files \<rparr>, st')))"

section \<open>Saving and the per-model pipeline\<close>

definition record_of :: "model_data \<Rightarrow> saved_record" where
  "record_of m =
     \<lparr> rec_model_id = model_id m, rec_name = name m, rec_division = division m,
       rec_profile_url = profile_url m, rec_thumbnail = thumbnail m,
       rec_attributes = attributes m, rec_images = images m \<rparr>"

definition save_model_metadata :: "item_env \<Rightarrow> model_data \<Rightarrow> scraper \<Rightarrow> bool \<times> scraper" where
  "save_model_metadata env m st =
     (if append_ok env then (True, st \<lparr> models_file := models_file st @ [record_of m] \<rparr>)
      else (False, st))"

text \<open>\<open>process_single_model\<close>: the \<open>except\<close> clause turns an exception of stage 2 or 3
  into a failed model.\<close>

definition process_single_model ::
  "pylib \<Rightarrow> config \<Rightarrow> item_env \<Rightarrow> model_data \<Rightarrow> scraper \<Rightarrow> model_data option \<times> scraper" where
  "process_single_model L cfg env m st =
     (case scrape_model_profile env m of
        Inl _ \<Rightarrow> (None, st \<lparr> models_failed := models_failed st + 1 \<rparr>)
      | Inr m1 \<Rightarrow>
         (case download_model_images L cfg env m1 st of
            Inl _ \<Rightarrow> (None, st \<lparr> models_failed := models_failed st + 1 \<rparr>)
          | Inr (m2, st2) \<Rightarrow>
             if \<not> validate_model_data cfg m2
             then (None, st2 \<lparr> models_failed := models_failed st2 + 1 \<rparr>)
             else
              (case save_model_metadata env m2 st2 of (saved, st3) \<Rightarrow>
                 if saved
                 then (Some m2, st3 \<lparr> models_processed := models_processed st3 + 1 \<rparr>)
                 else (None, st3 \<lparr> models_failed := models_failed st3 + 1 \<rparr>))))"




section \<open>Example worlds\<close>

text \<open>A world in which the profile page loads with the given gallery and no attributes,
  and every effect succeeds.\<close>

definition all_ok :: "string list \<Rightarrow> item_env" where
  "all_ok gallery =
     \<lparr> page = Loaded [] gallery, mkdir_ok = True,
       download_ok = (\<lambda>url fname. True), append_ok = True \<rparr>"

section \<open>The downloads the specification describes\<close>







section \<open>Properties of slugs\<close>

lemma cp_lower_char:
  "cp (lower_char c) =
     (if (65 \<le> cp c \<and> cp c \<le> 90) \<or> (192 \<le> cp c \<and> cp c \<le> 214)
         \<or> (216 \<le> cp c \<and> cp c \<le> 222)
      then cp c + 32 else cp c)"
  by (auto simp: lower_char_def Let_def cp_def)

lemma char_eq_cp: "c = d \<longleftrightarrow> cp c = cp d"
  by (simp add: cp_def)

lemma cp_literals: "cp (CHR ''_'') = 95" "cp (CHR ''-'') = 45"
  by (simp_all add: cp_def)


lemma in_set_dropWhile: "x \<in> set xs \<Longrightarrow> \<not> p x \<Longrightarrow> x \<in> set (dropWhile p xs)"
  by (induction xs) auto

lemma collapse_seps_other:
  "c \<noteq> CHR ''_'' \<Longrightarrow> c \<in> set (collapse_seps s) \<longleftrightarrow> c \<in> set s \<and> \<not> is_sep c"
proof (induction s rule: collapse_seps.induct)
  case 1
  then show ?case by simp
next
  case (2 d ds)
  show ?case
  proof (cases "is_sep d")
    case True
    have "c \<in> set (dropWhile is_sep ds) \<and> \<not> is_sep c \<longleftrightarrow> c \<in> set ds \<and> \<not> is_sep c"
      by (blast intro: in_set_dropWhile dest: set_dropWhileD)
    with 2 True show ?thesis by auto
  next
    case False
    with 2 show ?thesis by auto
  qed
qed


lemma strip_where_nonempty: "strip_where p s \<noteq> [] \<longleftrightarrow> (\<exists>c\<in>set s. \<not> p c)"
proof
  assume "strip_where p s \<noteq> []"
  then obtain c where "c \<in> set (rev (dropWhile p s))" "\<not> p c"
    unfolding strip_where_def by (auto simp: dropWhile_eq_Nil_conv)
  then show "\<exists>c\<in>set s. \<not> p c"
    by (auto dest: set_dropWhileD)
next
  assume "\<exists>c\<in>set s. \<not> p c"
  then obtain c where "c \<in> set s" "\<not> p c" by blast
  then have "c \<in> set (rev (dropWhile p s))"
    by (simp add: in_set_dropWhile)
  with \<open>\<not> p c\<close> show "strip_where p s \<noteq> []"
    unfolding strip_where_def by (auto simp: dropWhile_eq_Nil_conv)
qed

lemma isalnum_lower_char: "isalnum (lower_char c) = isalnum c"
  unfolding isalnum_def Let_def cp_lower_char
  by (simp split: if_splits) arith?

lemma isalnum_iff_keep:
  "isalnum c \<longleftrightarrow> slug_keep c \<and> \<not> is_sep c \<and> c \<noteq> CHR ''_''"
  unfolding slug_keep_def is_sep_def is_word_def isalnum_def isspace_def Let_def
    char_eq_cp [of _ "CHR ''_''"] char_eq_cp [of _ "CHR ''-''"] cp_literals
  by arith



lemma slug_nonempty_iff: "slugify_name nm \<noteq> [] \<longleftrightarrow> (\<exists>c\<in>set nm. isalnum c)"
proof -
  have "slugify_name nm \<noteq> [] \<longleftrightarrow>
        (\<exists>c\<in>set (collapse_seps (remove_special (lower nm))). c \<noteq> CHR ''_'')"
    by (simp add: slugify_name_def strip_where_nonempty)
  also have "\<dots> \<longleftrightarrow> (\<exists>c\<in>set (remove_special (lower nm)). \<not> is_sep c \<and> c \<noteq> CHR ''_'')"
    using collapse_seps_other by blast
  also have "\<dots> \<longleftrightarrow> (\<exists>c\<in>set (lower nm). isalnum c)"
    unfolding remove_special_def using isalnum_iff_keep by auto
  also have "\<dots> \<longleftrightarrow> (\<exists>c\<in>set nm. isalnum c)"
    by (simp add: lower_def isalnum_lower_char)
  finally show ?thesis .
qed







section \<open>Properties of division extraction\<close>

lemma match_alt_SomeD: "match_alt as s = Some (d, r) \<Longrightarrow> d \<in> set as \<and> s = d @ r"
  by (induction as) (auto split: if_splits simp: prefix_def)

lemma re_search_SomeD: "re_search m s = Some g \<Longrightarrow> \<exists>t. suffix t s \<and> m t = Some g"
proof (induction s)
  case Nil
  then show ?case by auto
next
  case (Cons c cs)
  then show ?case
    by (auto split: option.splits intro: suffix_ConsI)
qed

lemma re_search_NoneD: "re_search m s = None \<Longrightarrow> suffix t s \<Longrightarrow> m t = None"
proof (induction s)
  case Nil
  then show ?case by auto
next
  case (Cons c cs)
  then show ?case
    by (auto split: option.splits simp: suffix_Cons)
qed

lemma pat_models_division_SomeD:
  "pat_models_division s = Some d
     \<Longrightarrow> d \<in> set division_names \<and> prefix (''/models/'' @ d @ ''/'') s"
  unfolding pat_models_division_def match_lit_def
  by (auto split: option.splits if_splits dest!: match_alt_SomeD simp: prefix_def)

lemma pat_models_division_dev:
  "prefix ''/models/dev/'' s \<Longrightarrow> pat_models_division s = Some ''dev''"
  unfolding pat_models_division_def match_lit_def division_names_def
  by (auto simp: prefix_def)

lemma pat_division_names:
  "pat_models_division s = Some d \<Longrightarrow> d \<in> set division_names"
  "pat_division_id s = Some d \<Longrightarrow> d \<in> set division_names"
  "pat_division_dir s = Some d \<Longrightarrow> d \<in> set division_names"
  unfolding pat_models_division_def pat_division_id_def pat_division_dir_def
  by (auto split: option.splits if_splits dest: match_alt_SomeD)

lemma first_match_division:
  "first_match division_patterns url = Some d \<Longrightarrow> d \<in> set division_names"
  unfolding division_patterns_def
  by (auto split: option.splits dest!: re_search_SomeD dest: pat_division_names)

lemma division_range:
  "extract_division_from_url url \<in> {''ima'', ''mai'', ''dev'', ''unknown''}"
  unfolding extract_division_from_url_def
  by (auto split: option.splits dest!: first_match_division simp: division_names_def)

lemma contains_models_dev:
  assumes "sublist ''/models/dev/'' url"
    and "\<not> sublist ''/models/ima/'' url" and "\<not> sublist ''/models/mai/'' url"
  shows "extract_division_from_url url = ''dev''"
proof -
  from assms(1) obtain t where t: "suffix t url" "prefix ''/models/dev/'' t"
    by (auto simp: sublist_altdef')
  then have "pat_models_division t = Some ''dev''"
    by (simp add: pat_models_division_dev)
  with t(1) have "re_search pat_models_division url \<noteq> None"
    by (metis re_search_NoneD option.distinct(1))
  then obtain g where g: "re_search pat_models_division url = Some g"
    by blast
  from re_search_SomeD [OF g]
  obtain t' where t': "suffix t' url" "pat_models_division t' = Some g"
    by blast
  from pat_models_division_SomeD [OF t'(2)]
  have g_in: "g \<in> set division_names" and pre: "prefix (''/models/'' @ g @ ''/'') t'"
    by blast+
  from t'(1) pre have sub: "sublist (''/models/'' @ g @ ''/'') url"
    unfolding sublist_altdef' by blast
  from g_in have "g = ''ima'' \<or> g = ''mai'' \<or> g = ''dev''"
    by (simp add: division_names_def)
  with sub assms(2,3) have "g = ''dev''"
    by fastforce
  with g show ?thesis
    by (simp add: extract_division_from_url_def division_patterns_def)
qed

lemma first_pattern_decides:
  assumes "i < length division_patterns"
    and "re_search (division_patterns ! i) url = Some d"
    and "\<forall>j<i. re_search (division_patterns ! j) url = None"
  shows "extract_division_from_url url = d"
proof -
  have "i = 0 \<or> i = 1 \<or> i = 2" using assms(1) by (auto simp: division_patterns_def)
  moreover have ?thesis if "i = 0"
    using that assms(2) by (simp add: extract_division_from_url_def division_patterns_def)
  moreover have ?thesis if "i = 1"
  proof -
    have "re_search (division_patterns ! 0) url = None" using that assms(3) by simp
    then show ?thesis
      using that assms(2) by (simp add: extract_division_from_url_def division_patterns_def)
  qed
  moreover have ?thesis if "i = 2"
  proof -
    have "re_search (division_patterns ! 0) url = None"
      "re_search (division_patterns ! 1) url = None"
      using that assms(3) by simp_all
    then show ?thesis
      using that assms(2) by (simp add: extract_division_from_url_def division_patterns_def)
  qed
  ultimately show ?thesis by blast
qed

lemma no_pattern_unknown:
  assumes "\<forall>p\<in>set division_patterns. re_search p url = None"
  shows "extract_division_from_url url = ''unknown''"
  using assms by (simp add: extract_division_from_url_def division_patterns_def)

text \<open>
  Claim C5, as amended. The division is decided by the first pattern of the ordered
  list that matches anywhere in the URL; the result is one of \<open>ima\<close>, \<open>mai\<close>, \<open>dev\<close>,
  \<open>unknown\<close>; a URL in which no pattern matches yields \<open>unknown\<close>; and a URL that
  contains \<open>/models/dev/\<close> but neither \<open>/models/ima/\<close> nor \<open>/models/mai/\<close> yields \<open>dev\<close>.
\<close>

theorem extract_division_first_match:
  "extract_division_from_url url \<in> {''ima'', ''mai'', ''dev'', ''unknown''}
   \<and> (\<forall>i d. i < length division_patterns
          \<and> re_search (division_patterns ! i) url = Some d
          \<and> (\<forall>j<i. re_search (division_patterns ! j) url = None)
        \<longrightarrow> extract_division_from_url url = d)
   \<and> ((\<forall>p\<in>set division_patterns. re_search p url = None)
        \<longrightarrow> extract_division_from_url url = ''unknown'')
   \<and> (sublist ''/models/dev/'' url \<and> \<not> sublist ''/models/ima/'' url
        \<and> \<not> sublist ''/models/mai/'' url
        \<longrightarrow> extract_division_from_url url = ''dev'')"
  using division_range first_pattern_decides no_pattern_unknown contains_models_dev
  by blast

theorem extract_division_first_match_witness:
  "sublist ''/models/dev/'' ''https://apmmodels.com/w/models/dev/dev-123-jane''
   \<and> \<not> sublist ''/models/ima/'' ''https://apmmodels.com/w/models/dev/dev-123-jane''
   \<and> \<not> sublist ''/models/mai/'' ''https://apmmodels.com/w/models/dev/dev-123-jane''
   \<and> extract_division_from_url ''https://apmmodels.com/w/models/dev/dev-123-jane'' = ''dev''
   \<and> list_all (\<lambda>p. re_search p ''https://apmmodels.com/about'' = None) division_patterns
   \<and> extract_division_from_url ''https://apmmodels.com/about'' = ''unknown''"
proof -
  have h: "sublist ''/models/dev/'' ''https://apmmodels.com/w/models/dev/dev-123-jane''
      \<and> \<not> sublist ''/models/ima/'' ''https://apmmodels.com/w/models/dev/dev-123-jane''
      \<and> \<not> sublist ''/models/mai/'' ''https://apmmodels.com/w/models/dev/dev-123-jane''"
    by code_simp
  have n: "list_all (\<lambda>p. re_search p ''https://apmmodels.com/about'' = None) division_patterns"
    by code_simp
  from extract_division_first_match [of "''https://apmmodels.com/w/models/dev/dev-123-jane''"] h
  have a: "extract_division_from_url ''https://apmmodels.com/w/models/dev/dev-123-jane'' = ''dev''"
    by blast
  from extract_division_first_match [of "''https://apmmodels.com/about''"] n
  have b: "extract_division_from_url ''https://apmmodels.com/about'' = ''unknown''"
    unfolding list_all_iff by blast
  from h n a b show ?thesis by blast
qed

text \<open>
  The claim as stated fails for a URL that contains \<open>/models/dev/\<close> after an earlier
  \<open>/models/ima/\<close>: the search returns the leftmost match of the first pattern.
\<close>

theorem extract_division_contains_dev_counterexample:
  "sublist ''/models/dev/'' ''https://apmmodels.com/w/models/ima/models/dev/''
   \<and> extract_division_from_url ''https://apmmodels.com/w/models/ima/models/dev/'' = ''ima''"
  by code_simp

section \<open>Properties of the index extractors\<close>

lemma extract_model_from_entry_SomeD:
  assumes "extract_model_from_entry L base entry letter = Some m"
  shows "\<exists>link. entry_link entry = Some link \<and> name m = get_text_strip (link_strings link)
           \<and> name m \<noteq> [] \<and> slug m = slugify_name (name m)"
  using assms unfolding extract_model_from_entry_def Let_def
  by (auto split: option.splits if_splits sum.splits)

lemma extract_model_from_link_SomeD:
  assumes "extract_model_from_link L base link_elem = Some m"
  shows "name m = link_model_name link_elem \<and> name m \<noteq> [] \<and> slug m = slugify_name (name m)"
  using assms unfolding extract_model_from_link_def Let_def
  by (auto split: option.splits if_splits sum.splits)

lemma extract_model_from_entry_empty_text:
  assumes "entry_link entry = Some link" and "get_text_strip (link_strings link) = []"
  shows "extract_model_from_entry L base entry letter = None"
  using assms unfolding extract_model_from_entry_def Let_def by simp

lemma link_model_name_cases:
  "(link_img link_elem = None \<or> (\<exists>t. link_img link_elem = Some t \<and> get_attr (img_alt t) = [])
      \<longrightarrow> link_model_name link_elem = get_text_strip (link_strings link_elem))
   \<and> (\<forall>t. link_img link_elem = Some t \<and> get_attr (img_alt t) \<noteq> []
      \<longrightarrow> link_model_name link_elem = strip (get_attr (img_alt t)))"
  unfolding link_model_name_def by (auto split: option.splits)

text \<open>
  Claim C8, as amended. The entry strategy takes the name from the link text alone and
  yields no item when that text is empty (the image alt text is never used). The link
  strategy takes the stripped alt text of the link's image whenever that alt text is not
  empty, and the link text only when there is no image or its alt text is missing or
  empty.
\<close>

theorem name_derivation_per_strategy:
  "(extract_model_from_entry L base entry letter = Some m
      \<longrightarrow> (\<exists>link. entry_link entry = Some link
             \<and> name m = get_text_strip (link_strings link) \<and> name m \<noteq> []))
   \<and> (entry_link entry = Some link0 \<and> get_text_strip (link_strings link0) = []
      \<longrightarrow> extract_model_from_entry L base entry letter = None)
   \<and> (extract_model_from_link L base link_elem = Some m'
      \<longrightarrow> name m' = link_model_name link_elem \<and> name m' \<noteq> [])
   \<and> (link_img link_elem = None \<or> (\<exists>t. link_img link_elem = Some t \<and> get_attr (img_alt t) = [])
      \<longrightarrow> link_model_name link_elem = get_text_strip (link_strings link_elem))
   \<and> (\<forall>t. link_img link_elem = Some t \<and> get_attr (img_alt t) \<noteq> []
      \<longrightarrow> link_model_name link_elem = strip (get_attr (img_alt t)))"
  using extract_model_from_entry_SomeD [of L base entry letter m]
    extract_model_from_entry_empty_text [of entry link0 L base letter]
    extract_model_from_link_SomeD [of L base link_elem m']
    link_model_name_cases [of link_elem]
  by blast

theorem name_derivation_per_strategy_witness:
  "map_option name (extract_model_from_entry plain_lib example_base example_entry None)
     = Some ''Jane Doe''
   \<and> get_text_strip (link_strings example_link) = ''Jane Doe''
   \<and> link_model_name (example_link \<lparr> link_img := None \<rparr>) = ''Jane Doe''
   \<and> link_model_name example_link = ''portrait''"
proof -
  have ev: "map_option name (extract_model_from_entry plain_lib example_base example_entry None)
      = Some ''Jane Doe''"
    by code_simp
  then obtain m where m: "extract_model_from_entry plain_lib example_base example_entry None = Some m"
    by blast
  have l: "entry_link example_entry = Some example_link"
    by (simp add: example_entry_def)
  have i: "link_img example_link = Some example_img" "get_attr (img_alt example_img) \<noteq> []"
    "strip (get_attr (img_alt example_img)) = ''portrait''"
    by code_simp+
  note t = name_derivation_per_strategy [of plain_lib example_base example_entry None m]
  from t [of example_link "example_link \<lparr> link_img := None \<rparr>"] m l ev
  have a: "get_text_strip (link_strings example_link) = ''Jane Doe''"
    and b: "link_model_name (example_link \<lparr> link_img := None \<rparr>) = ''Jane Doe''"
    by auto
  from t [of example_link example_link] i
  have c: "link_model_name example_link = ''portrait''"
    by metis
  from ev a b c show ?thesis by blast
qed

text \<open>
  The claim as stated fails for the link strategy: a link with the text \<open>Jane Doe\<close>
  around an image whose alt text is \<open>portrait\<close> is named \<open>portrait\<close>.
\<close>

theorem name_from_link_text_counterexample:
  "get_text_strip (link_strings example_link) = ''Jane Doe''
   \<and> map_option name (extract_model_from_link plain_lib example_base example_link)
       = Some ''portrait''"
  by code_simp

text \<open>
  Claim C9. The extractors test only that the name is not empty and store the slug of
  the name without looking at it, so an extracted item whose name has no alphanumeric
  character has the empty slug. The entry with the link text \<open>???\<close> is extracted with
  the name \<open>???\<close> and the slug \<open>\<close>; when the item is processed, its gallery image is
  written to the directory \<open>images_dir / ''\<close>, which is the image root shared by all
  models, and is recorded under the path \<open>images//portfolio1.png\<close>.
\<close>

theorem extract_model_from_entry_empty_slug:
  "(extract_model_from_entry L base entry letter = Some m
      \<and> \<not> (\<exists>c\<in>set (name m). isalnum c)
      \<longrightarrow> name m \<noteq> [] \<and> slug m = [])
   \<and> (extract_model_from_link L base link_elem = Some m'
      \<and> \<not> (\<exists>c\<in>set (name m'). isalnum c)
      \<longrightarrow> name m' \<noteq> [] \<and> slug m' = [])
   \<and> map_option name (extract_model_from_entry plain_lib example_base punct_entry None)
       = Some ''???''
   \<and> map_option slug (extract_model_from_entry plain_lib example_base punct_entry None)
       = Some []
   \<and> map_option
        (\<lambda>item. case process_single_model plain_lib default_config
                       (all_ok [''https://apmmodels.com/img/g1.png'']) item init_scraper of
                  (result, st) \<Rightarrow> (map_option images result, downloads st))
        (extract_model_from_entry plain_lib example_base punct_entry None)
       = Some (Some [''images//portfolio1.png''],
               [(''https://apmmodels.com/img/g1.png'', [], ''portfolio1.png'')])"
proof -
  have a: "name m \<noteq> [] \<and> slug m = []"
    if "extract_model_from_entry L base entry letter = Some m"
      and "\<not> (\<exists>c\<in>set (name m). isalnum c)"
  proof -
    from extract_model_from_entry_SomeD [OF that(1)]
    have n: "name m \<noteq> []" and s: "slug m = slugify_name (name m)"
      by blast+
    from slug_nonempty_iff [of "name m"] that(2) have "slugify_name (name m) = []"
      by blast
    with n s show ?thesis by simp
  qed
  have b: "name m' \<noteq> [] \<and> slug m' = []"
    if "extract_model_from_link L base link_elem = Some m'"
      and "\<not> (\<exists>c\<in>set (name m'). isalnum c)"
  proof -
    from extract_model_from_link_SomeD [OF that(1)]
    have n: "name m' \<noteq> []" and s: "slug m' = slugify_name (name m')"
      by blast+
    from slug_nonempty_iff [of "name m'"] that(2) have "slugify_name (name m') = []"
      by blast
    with n s show ?thesis by simp
  qed
  have c: "map_option name (extract_model_from_entry plain_lib example_base punct_entry None)
       = Some ''???''"
    by code_simp
  have d: "map_option slug (extract_model_from_entry plain_lib example_base punct_entry None)
       = Some []"
    by code_simp
  have e: "map_option
        (\<lambda>item. case process_single_model plain_lib default_config
                       (all_ok [''https://apmmodels.com/img/g1.png'']) item init_scraper of
                  (result, st) \<Rightarrow> (map_option images result, downloads st))
        (extract_model_from_entry plain_lib example_base punct_entry None)
       = Some (Some [''images//portfolio1.png''],
               [(''https://apmmodels.com/img/g1.png'', [], ''portfolio1.png'')])"
    by code_simp
  from a b c d e show ?thesis by blast
qed

theorem extract_model_from_entry_empty_slug_witness:
  "list_all (\<lambda>c. \<not> isalnum c) ''???''
   \<and> (\<exists>item. extract_model_from_entry plain_lib example_base punct_entry None = Some item
         \<and> name item = ''???'' \<and> slug item = [])"
proof -
  have ev: "map_option name (extract_model_from_entry plain_lib example_base punct_entry None)
       = Some ''???''"
    by code_simp
  then obtain item where item:
    "extract_model_from_entry plain_lib example_base punct_entry None = Some item"
    "name item = ''???''"
    by (cases "extract_model_from_entry plain_lib example_base punct_entry None") auto
  have na: "list_all (\<lambda>c. \<not> isalnum c) ''???''"
    by code_simp
  then have "\<not> (\<exists>c\<in>set (name item). isalnum c)"
    unfolding item(2) list_all_iff by blast
  with extract_model_from_entry_empty_slug [of plain_lib example_base punct_entry None item] item
  have "slug item = []"
    by blast
  with na item show ?thesis by blast
qed

section \<open>Properties of duplicate removal\<close>

lemma unique_loop_acc:
  "unique_loop ms acc seen = acc @ unique_loop ms [] seen"
proof (induction ms arbitrary: acc seen)
  case Nil
  then show ?case by simp
next
  case (Cons m ms)
  show ?case
  proof (cases "profile_url m \<in> seen")
    case True
    then show ?thesis using Cons.IH [of acc seen] by simp
  next
    case False
    then show ?thesis
      using Cons.IH [of "acc @ [m]" "insert (profile_url m) seen"]
        Cons.IH [of "[m]" "insert (profile_url m) seen"]
      by simp
  qed
qed

lemma unique_loop_Cons:
  "unique_loop (m # ms) [] seen =
     (if profile_url m \<in> seen then unique_loop ms [] seen
      else m # unique_loop ms [] (insert (profile_url m) seen))"
  using unique_loop_acc [of ms "[m]" "insert (profile_url m) seen"] by simp

lemma unique_loop_urls:
  "set (map profile_url (unique_loop ms [] seen)) = set (map profile_url ms) - seen"
  by (induction ms arbitrary: seen) (auto simp: unique_loop_Cons simp del: unique_loop.simps(2))

lemma unique_loop_distinct:
  "distinct (map profile_url (unique_loop ms [] seen))"
proof (induction ms arbitrary: seen)
  case Nil
  then show ?case by simp
next
  case (Cons m ms)
  have "profile_url m \<notin> set (map profile_url (unique_loop ms [] (insert (profile_url m) seen)))"
    unfolding unique_loop_urls by simp
  with Cons show ?case
    by (simp add: unique_loop_Cons del: unique_loop.simps(2))
qed

lemma unique_loop_subseq: "subseq (unique_loop ms [] seen) ms"
proof (induction ms arbitrary: seen)
  case Nil
  then show ?case by simp
next
  case (Cons a ms)
  show ?case
  proof (cases "profile_url a \<in> seen")
    case True
    with Cons [of seen] show ?thesis
      by (simp add: unique_loop_Cons list_emb_Cons del: unique_loop.simps(2))
  next
    case False
    with Cons [of "insert (profile_url a) seen"] show ?thesis
      by (simp add: unique_loop_Cons del: unique_loop.simps(2))
  qed
qed

lemma unique_loop_first:
  assumes "m \<in> set (unique_loop ms [] seen)"
  shows "find (\<lambda>x. profile_url x = profile_url m) ms = Some m"
  using assms
proof (induction ms arbitrary: seen)
  case Nil
  then show ?case by simp
next
  case (Cons a ms)
  show ?case
  proof (cases "profile_url a \<in> seen")
    case True
    with Cons.prems have in_rest: "m \<in> set (unique_loop ms [] seen)"
      by (simp add: unique_loop_Cons del: unique_loop.simps(2))
    then have "profile_url m \<in> set (map profile_url (unique_loop ms [] seen))"
      by (simp del: unique_loop.simps(2))
    then have "profile_url m \<notin> seen"
      unfolding unique_loop_urls by simp
    with True have "profile_url a \<noteq> profile_url m" by auto
    with Cons.IH [OF in_rest] show ?thesis by simp
  next
    case False
    with Cons.prems have "m = a \<or> m \<in> set (unique_loop ms [] (insert (profile_url a) seen))"
      by (simp add: unique_loop_Cons del: unique_loop.simps(2))
    then show ?thesis
    proof
      assume "m = a"
      then show ?thesis by simp
    next
      assume in_rest: "m \<in> set (unique_loop ms [] (insert (profile_url a) seen))"
      then have "profile_url m \<in> set (map profile_url (unique_loop ms [] (insert (profile_url a) seen)))"
        by (simp del: unique_loop.simps(2))
      then have "profile_url a \<noteq> profile_url m"
        unfolding unique_loop_urls by auto
      with Cons.IH [OF in_rest] show ?thesis by simp
    qed
  qed
qed

lemma unique_loop_insert:
  "unique_loop ms [] (insert u seen)
     = unique_loop (filter (\<lambda>x. profile_url x \<noteq> u) ms) [] seen"
proof (induction ms arbitrary: seen)
  case Nil
  then show ?case by simp
next
  case (Cons a ms)
  show ?case
  proof (cases "profile_url a = u")
    case True
    with Cons [of seen] show ?thesis
      by (simp add: unique_loop_Cons del: unique_loop.simps(2))
  next
    case False
    show ?thesis
    proof (cases "profile_url a \<in> seen")
      case True
      with False Cons [of seen] show ?thesis
        by (simp add: unique_loop_Cons del: unique_loop.simps(2))
    next
      case notin: False
      have "insert (profile_url a) (insert u seen) = insert u (insert (profile_url a) seen)"
        by (rule insert_commute)
      with False notin Cons [of "insert (profile_url a) seen"] show ?thesis
        by (simp add: unique_loop_Cons del: unique_loop.simps(2))
    qed
  qed
qed

lemma remove_duplicates_Cons:
  "remove_duplicates (model # rest)
     = model # remove_duplicates (filter (\<lambda>x. profile_url x \<noteq> profile_url model) rest)"
  unfolding remove_duplicates_def
  by (simp add: unique_loop_Cons unique_loop_insert del: unique_loop.simps(2))

text \<open>
  Claim C4. The duplicate removal keeps the first entry of the list, drops every later
  entry with the same profile URL, and goes on in the same way with what is left; so
  the result is the list of the first occurrences of the profile URLs in the order in
  which they first occur. It has exactly one entry for every profile URL of the input,
  each surviving entry is the first entry of the input with its URL, and the survivors
  stand in the order of the input.
\<close>

theorem remove_duplicates_by_profile_url:
  "remove_duplicates [] = []
   \<and> remove_duplicates (model # rest)
       = model # remove_duplicates (filter (\<lambda>x. profile_url x \<noteq> profile_url model) rest)
   \<and> distinct (map profile_url (remove_duplicates models))
   \<and> set (map profile_url (remove_duplicates models)) = set (map profile_url models)
   \<and> (\<forall>m\<in>set (remove_duplicates models).
         find (\<lambda>x. profile_url x = profile_url m) models = Some m)
   \<and> subseq (remove_duplicates models) models"
proof -
  have "remove_duplicates [] = []"
    by (simp add: remove_duplicates_def)
  moreover have "distinct (map profile_url (remove_duplicates models))
   \<and> set (map profile_url (remove_duplicates models)) = set (map profile_url models)
   \<and> (\<forall>m\<in>set (remove_duplicates models).
         find (\<lambda>x. profile_url x = profile_url m) models = Some m)
   \<and> subseq (remove_duplicates models) models"
    unfolding remove_duplicates_def
    using unique_loop_distinct [of models "{}"] unique_loop_urls [of models "{}"]
      unique_loop_first [of _ models "{}"] unique_loop_subseq [of models "{}"]
    by auto
  ultimately show ?thesis
    using remove_duplicates_Cons [of model rest] by blast
qed

text \<open>
  Two copies of the first model around a second one: the first copy survives, in front
  of the second model (not the last copy, behind it).
\<close>

theorem remove_duplicates_by_profile_url_witness:
  "remove_duplicates [example_model, example_model2, example_model]
     = [example_model, example_model2]
   \<and> remove_duplicates [example_model, example_model2, example_model]
       \<noteq> [example_model2, example_model]
   \<and> remove_duplicates [example_model, example_model2, example_model \<lparr> name := ''Jane D.'' \<rparr>]
       = [example_model, example_model2]
   \<and> distinct (map profile_url
        (remove_duplicates [example_model, example_model2, example_model \<lparr> name := ''Jane D.'' \<rparr>]))
   \<and> find (\<lambda>x. profile_url x = profile_url example_model)
        [example_model, example_model2, example_model \<lparr> name := ''Jane D.'' \<rparr>]
      = Some example_model"
proof -
  let ?ms = "[example_model, example_model2, example_model \<lparr> name := ''Jane D.'' \<rparr>]"
  have ne: "profile_url example_model2 \<noteq> profile_url example_model"
    by (simp add: example_model2_def example_model_def)
  have ne2: "example_model \<noteq> example_model2"
    using ne by auto
  have "remove_duplicates [example_model, example_model2, example_model]
      = example_model # remove_duplicates [example_model2]"
    using remove_duplicates_by_profile_url [of example_model "[example_model2, example_model]"] ne
    by simp
  also have "remove_duplicates [example_model2] = example_model2 # remove_duplicates []"
    using remove_duplicates_by_profile_url [of example_model2 "[]"]
    by simp
  also have "remove_duplicates [] = ([] :: model_data list)"
    using remove_duplicates_by_profile_url [of example_model "[]" "[]"] by blast
  finally have copy: "remove_duplicates [example_model, example_model2, example_model]
      = [example_model, example_model2]" .
  with ne2 have order: "remove_duplicates [example_model, example_model2, example_model]
       \<noteq> [example_model2, example_model]"
    by simp
  have ev: "remove_duplicates ?ms = [example_model, example_model2]"
    by code_simp
  then have mem: "example_model \<in> set (remove_duplicates ?ms)"
    by simp
  from remove_duplicates_by_profile_url [of _ _ ?ms] mem
  have "distinct (map profile_url (remove_duplicates ?ms))"
    and "find (\<lambda>x. profile_url x = profile_url example_model) ?ms = Some example_model"
    by blast+
  with copy order ev show ?thesis by blast
qed

section \<open>Properties of validation\<close>

lemma validate_model_data_iff:
  "validate_model_data cfg m \<longleftrightarrow>
     model_id m \<noteq> [] \<and> name m \<noteq> [] \<and> division m \<noteq> [] \<and> profile_url m \<noteq> []
     \<and> division m \<in> set (required_divisions cfg)
     \<and> min_images_per_model cfg \<le> int (length (images m))"
  unfolding validate_model_data_def required_fields_def Let_def
  by auto

text \<open>
  Claim C6. An item is valid exactly when its identifier, name, division and profile
  URL are non-empty, its division is one of the configured divisions, and it has at
  least the configured minimum of images; neither the item's attributes nor the list
  of expected attributes changes the verdict.
\<close>

theorem validate_model_data_rules:
  "(validate_model_data cfg m \<longleftrightarrow>
      model_id m \<noteq> [] \<and> name m \<noteq> [] \<and> division m \<noteq> [] \<and> profile_url m \<noteq> []
      \<and> division m \<in> set (required_divisions cfg)
      \<and> min_images_per_model cfg \<le> int (length (images m)))
   \<and> validate_model_data (cfg \<lparr> expected_attributes := ea \<rparr>) (m \<lparr> attributes := a \<rparr>)
       = validate_model_data cfg m"
  by (simp add: validate_model_data_iff)

theorem validate_model_data_rules_witness:
  "validate_model_data default_config
     (example_model \<lparr> images := [''images/jane_doe/thumbnail.jpg''] \<rparr>)
   \<and> \<not> validate_model_data default_config
     (example_model \<lparr> model_id := [], images := [''images/jane_doe/thumbnail.jpg''] \<rparr>)
   \<and> \<not> validate_model_data default_config example_model
   \<and> \<not> validate_model_data default_config
     (example_model \<lparr> division := ''unknown'', images := [''images/jane_doe/thumbnail.jpg''] \<rparr>)"
  using validate_model_data_rules [of default_config
      "example_model \<lparr> images := [''images/jane_doe/thumbnail.jpg''] \<rparr>"]
    validate_model_data_rules [of default_config
      "example_model \<lparr> model_id := [], images := [''images/jane_doe/thumbnail.jpg''] \<rparr>"]
    validate_model_data_rules [of default_config example_model]
    validate_model_data_rules [of default_config
      "example_model \<lparr> division := ''unknown'', images := [''images/jane_doe/thumbnail.jpg''] \<rparr>"]
  by (simp add: default_config_def example_model_def)

section \<open>Properties of the image extension\<close>



lemma get_image_extension_path:
  assumes "urlparse_path L url = Inr p"
  shows "get_image_extension L url =
           Inr (case find (\<lambda>ext. sublist ext (lower p)) image_exts of
                  Some ext \<Rightarrow> ext | None \<Rightarrow> ''.jpg'')"
  using assms by (simp add: get_image_extension_def)


lemma get_image_extension_jpg:
  assumes "urlparse_path L url = Inr p" and "sublist ''.jpg'' (lower p)"
  shows "get_image_extension L url = Inr ''.jpg''"
  using assms by (simp add: get_image_extension_path image_exts_def)









section \<open>Properties of the image download\<close>













section \<open>Properties of the per-model pipeline\<close>


lemma process_single_model_setup:
  "page env = Setup_Raises \<Longrightarrow>
     process_single_model L cfg env m st = (None, st \<lparr> models_failed := models_failed st + 1 \<rparr>)"
  by (simp add: process_single_model_def scrape_model_profile_def)

lemma fetch_one_page:
  "fetch_one L (env \<lparr> page := pg \<rparr>) dir stem url acc = fetch_one L env dir stem url acc"
  by (cases acc; cases "get_image_extension L url")
     (simp_all add: fetch_one_def download_image_def)

lemma download_gallery_page:
  "download_gallery L (env \<lparr> page := pg \<rparr>) dir i urls acc = download_gallery L env dir i urls acc"
  by (induction urls arbitrary: i acc) (simp_all add: fetch_one_page)

lemma download_model_images_page:
  "download_model_images L cfg (env \<lparr> page := pg \<rparr>) m st = download_model_images L cfg env m st"
  by (simp add: download_model_images_def fetch_one_page download_gallery_page)

lemma save_model_metadata_page:
  "save_model_metadata (env \<lparr> page := pg \<rparr>) m st = save_model_metadata env m st"
  by (simp add: save_model_metadata_def)

lemma process_single_model_load:
  "page env = Load_Raises \<Longrightarrow>
     process_single_model L cfg env m st
       = process_single_model L cfg (env \<lparr> page := Loaded [] [] \<rparr>) m st"
  unfolding process_single_model_def save_model_metadata_page download_model_images_page
  by (simp add: scrape_model_profile_def)









end
